theory Spec2Isabelle
  imports Complex_Main "HOL-Library.Word"
begin

unbundle bit_operations_syntax

section \<open>Data model of the style attribute codec\<close>

text \<open>
  The handlers receive PyMuPDF span and block dictionaries. A dictionary that is used as a
  structure is a record whose fields are the keys the handlers read or write; a field is
  \<open>None\<close> when the key is absent, so \<open>span.get(k, d)\<close> is a case distinction on the field.
  Python integers are unbounded (\<open>int\<close>). Python floats are modelled by exact reals where
  the results stated do not depend on rounding; the adaptive threshold does, and there the
  floating-point computation is a parameter of the model.
\<close>

datatype py_error =
  TypeError | KeyError | IndexError | ValueError | ZeroDivisionError | AttributeError

text \<open>An argument that may fail the test \<open>isinstance(x, dict)\<close>.\<close>

datatype 'd arg = Other | Dict 'd

text \<open>A value of the style map: a CSS-like string or a number.\<close>

datatype sval = SStr string | SNum real

type_synonym style_dict = "string \<rightharpoonup> sval"

text \<open>A box object whose attributes can be read and assigned.\<close>

record bbox =
  x0 :: real
  y0 :: real
  x1 :: real
  y1 :: real
  width :: real
  height :: real

text \<open>
  The value under the key \<open>bbox\<close> of a span: the tuple \<open>(x0, y0, x1, y1)\<close> that
  \<open>page.get_text("dict")\<close> stores there, a \<open>fitz.Rect\<close>, whose \<open>height\<close> is a property
  without a setter, or another object whose attributes can be assigned.
\<close>

datatype box = TupleBox real real real real | RectBox real real real real | ObjectBox bbox

record wave =
  amplitude :: real
  wlength :: real
  position :: real

record span =
  flags :: "int option"
  rise :: "real option"
  size :: "real option"
  font :: "string option"
  span_text :: "string option"
  bbox :: "box option"
  baseline :: "real option"
  original_size :: "real option"
  underline_style :: "string option"
  underline_color :: "string list option"
  underline_positions :: "real list option"
  underline_thickness :: "real option"
  underline_position :: "real option"
  underline_dash :: "real list option"
  underline_wave :: "wave option"
  dash_pattern :: "real list option"
  wave_amplitude :: "real option"
  wave_length :: "real option"
  baseline_offset :: "real option"

text \<open>\<open>d.get(key, default)\<close> on a field.\<close>

definition get_or :: "'a option \<Rightarrow> 'a \<Rightarrow> 'a" where
  "get_or field dflt = (case field of None \<Rightarrow> dflt | Some v \<Rightarrow> v)"

text \<open>The span with no key at all, \<open>{}\<close>.\<close>

definition empty_span :: span where
  "empty_span = \<lparr> flags = None, rise = None, size = None, font = None, span_text = None,
     bbox = None, baseline = None, original_size = None, underline_style = None,
     underline_color = None, underline_positions = None, underline_thickness = None,
     underline_position = None, underline_dash = None, underline_wave = None,
     dash_pattern = None, wave_amplitude = None, wave_length = None,
     baseline_offset = None \<rparr>"

section \<open>vertical\_align\_handling.py\<close>

definition extract_vertical_align :: "span arg \<Rightarrow> string" where
  "extract_vertical_align a =
     (case a of
        Other \<Rightarrow> ''''
      | Dict sp \<Rightarrow>
          (let fl = get_or (flags sp) 0 in
           if fl AND 2 \<noteq> 0 then ''vertical-align: super;''
           else if fl AND 3 \<noteq> 0 then ''vertical-align: sub;''
           else
             (case rise sp of
                Some r \<Rightarrow>
                  if r > 0 then ''vertical-align: super;''
                  else if r < 0 then ''vertical-align: sub;''
                  else ''vertical-align: baseline;''
              | None \<Rightarrow> ''vertical-align: baseline;'')))"

definition reinsert_vertical_align :: "span \<Rightarrow> style_dict \<Rightarrow> span" where
  "reinsert_vertical_align sp style_dict =
     (case style_dict ''vertical-align'' of
        None \<Rightarrow> sp
      | Some align \<Rightarrow>
          (let s1 = sp\<lparr> flags := Some (get_or (flags sp) 0 AND NOT (2 OR 3)), rise := Some 0 \<rparr>;
               s2 =
                 (if align = SStr ''super'' then
                    s1\<lparr> flags := Some (get_or (flags s1) 0 OR 2),
                        rise := Some (get_or (size s1) 12 * 0.33) \<rparr>
                  else if align = SStr ''sub'' then
                    s1\<lparr> flags := Some (get_or (flags s1) 0 OR 3),
                        rise := Some (- get_or (size s1) 12 * 0.33) \<rparr>
                  else if align = SStr ''text-top'' then
                    s1\<lparr> rise := Some (get_or (size s1) 12) \<rparr>
                  else if align = SStr ''text-bottom'' then
                    s1\<lparr> rise := Some (- get_or (size s1) 12) \<rparr>
                  else if align = SStr ''middle'' then
                    s1\<lparr> rise := Some (get_or (size s1) 12 * 0.5) \<rparr>
                  else s1)
           in if align = SStr ''sub'' \<or> align = SStr ''super''
              then s2\<lparr> size := Some (get_or (size s2) 12 * 0.75) \<rparr>
              else s2))"

section \<open>Strings as Python handles them\<close>

text \<open>
  A character is a code point below 256. The whitespace of \<open>str.split\<close>, \<open>str.strip\<close> and
  of the regular expression class \<open>\s\<close> is Python's among these: tab, line feed, vertical
  tab, form feed, carriage return, the four separators 28 to 31, the space, next line (133)
  and the no-break space (160). The digits of \<open>\d\<close> among them are 0 to 9.
\<close>

definition is_space :: "char \<Rightarrow> bool" where
  "is_space c = ((of_char c :: nat) \<in> {9, 10, 11, 12, 13, 28, 29, 30, 31, 32, 133, 160})"

definition is_digit :: "char \<Rightarrow> bool" where
  "is_digit c = (c \<in> set ''0123456789'')"

text \<open>\<open>s.startswith(p)\<close> and the substring test \<open>p in s\<close>.\<close>

definition starts_with :: "string \<Rightarrow> string \<Rightarrow> bool" where
  "starts_with p s = (take (length p) s = p)"

fun str_contains :: "string \<Rightarrow> string \<Rightarrow> bool" where
  "str_contains p [] = (p = [])"
| "str_contains p (c # cs) = (starts_with p (c # cs) \<or> str_contains p cs)"

text \<open>\<open>s.split()\<close>: the maximal runs of characters that are not whitespace.\<close>

fun split_acc :: "string \<Rightarrow> string \<Rightarrow> string list" where
  "split_acc cur [] = (if cur = [] then [] else [cur])"
| "split_acc cur (c # cs) =
     (if is_space c then (if cur = [] then split_acc [] cs else cur # split_acc [] cs)
      else split_acc (cur @ [c]) cs)"

definition py_split :: "string \<Rightarrow> string list" where
  "py_split s = split_acc [] s"

section \<open>underline\_handling.py and dashed\_underline\_handling.py\<close>

text \<open>
  \<open>get_font_metrics\<close> of font\_mapping.py builds a dictionary of eight metrics and adjusts
  \<open>x_height\<close>, \<open>cap_height\<close>, \<open>stem_width\<close> and \<open>line_gap\<close> by font family. The two
  entries below, the only ones the underline handler reads, are the same for every font.
\<close>

record font_metrics =
  fm_underline_position :: real
  fm_underline_thickness :: real

definition get_font_metrics :: "string \<Rightarrow> font_metrics" where
  "get_font_metrics font_name =
     \<lparr> fm_underline_position = - 0.1, fm_underline_thickness = 0.05 \<rparr>"

definition reinsert_underline :: "span \<Rightarrow> style_dict \<Rightarrow> py_error + span" where
  "reinsert_underline sp style_dict =
     (case style_dict ''text-decoration'' of
        None \<Rightarrow> Inr sp
      | Some (SNum n) \<Rightarrow> Inl TypeError
      | Some (SStr decoration) \<Rightarrow>
          if str_contains ''underline'' decoration then
            (let s1 = sp\<lparr> flags := Some (get_or (flags sp) 0 OR 4) \<rparr>;
                 parts = py_split decoration;
                 style = (if length parts > 1 then parts ! 1 else ''solid'');
                 color = (if length parts > 2 then Some (drop 2 parts) else None);
                 s2 = s1\<lparr> underline_style := Some style \<rparr>;
                 s3 = (case color of None \<Rightarrow> s2 | Some c \<Rightarrow> s2\<lparr> underline_color := Some c \<rparr>);
                 font_size = get_or (size s3) 12;
                 metrics = get_font_metrics (get_or (font s3) ''helvetica'');
                 pos = font_size * fm_underline_position metrics;
                 thickness = font_size * fm_underline_thickness metrics
             in Inr
               (if style = ''double'' then
                  s3\<lparr> underline_positions := Some [pos, pos - thickness * 3],
                      underline_thickness := Some thickness \<rparr>
                else if style = ''dotted'' \<or> style = ''dashed'' then
                  (if style = ''dotted''
                   then s3\<lparr> underline_dash := Some [thickness, thickness * 2] \<rparr>
                   else s3\<lparr> underline_dash := Some [thickness * 3, thickness * 2] \<rparr>)
                  \<lparr> underline_position := Some pos, underline_thickness := Some thickness \<rparr>
                else if style = ''wavy'' then
                  s3\<lparr> underline_wave := Some
                        \<lparr> amplitude = thickness * 2, wlength = font_size * 0.4,
                          position = pos \<rparr> \<rparr>
                else
                  s3\<lparr> underline_position := Some pos,
                      underline_thickness := Some thickness \<rparr>))
          else Inr sp)"

definition extract_dashed_underline :: "span arg \<Rightarrow> string" where
  "extract_dashed_underline a =
     (case a of
        Other \<Rightarrow> ''''
      | Dict sp \<Rightarrow>
          if get_or (flags sp) 0 AND 4 \<noteq> 0 then
            (let style = get_or (underline_style sp) '''' in
             if style = ''dashed'' then ''text-decoration-style: dashed;''
             else if style = ''dotted'' then ''text-decoration-style: dotted;''
             else if style = ''wavy'' then ''text-decoration-style: wavy;''
             else '''')
          else '''')"

text \<open>A style value that is a number is in none of the style lists and is left alone.\<close>

definition reinsert_dashed_underline :: "span \<Rightarrow> style_dict \<Rightarrow> span" where
  "reinsert_dashed_underline sp style_dict =
     (case style_dict ''text-decoration-style'' of
        None \<Rightarrow> sp
      | Some (SNum n) \<Rightarrow> sp
      | Some (SStr style) \<Rightarrow>
          if style \<in> set [''dashed'', ''dotted'', ''wavy''] then
            (let s1 = sp\<lparr> flags := Some (get_or (flags sp) 0 OR 4),
                          underline_style := Some style \<rparr>
             in case size s1 of
                  None \<Rightarrow> s1
                | Some font_size \<Rightarrow>
                    (if style = ''dashed'' then
                       s1\<lparr> dash_pattern := Some [3 * font_size / 12, 2 * font_size / 12],
                           underline_thickness := Some (max 0.5 (font_size * 0.04)),
                           underline_position := Some (- font_size * 0.1) \<rparr>
                     else if style = ''dotted'' then
                       s1\<lparr> dash_pattern := Some [font_size / 12, 2 * font_size / 12],
                           underline_thickness := Some (max 0.5 (font_size * 0.08)),
                           underline_position := Some (- font_size * 0.1) \<rparr>
                     else if style = ''wavy'' then
                       s1\<lparr> wave_amplitude := Some (font_size * 0.05),
                           wave_length := Some (font_size * 0.4),
                           underline_thickness := Some (max 0.5 (font_size * 0.04)),
                           underline_position := Some (- font_size * 0.15) \<rparr>
                     else s1)
                    \<lparr> baseline_offset := Some (- font_size * 0.1) \<rparr>)
          else sp)"

text \<open>The metrics dictionary, in insertion order.\<close>

definition calculate_dash_pattern :: "real \<Rightarrow> string \<Rightarrow> (string \<times> real) list" where
  "calculate_dash_pattern font_size style =
     (let metrics = [(''thickness'', max 0.5 (font_size * 0.04)),
                     (''offset'', - font_size * 0.1)]
      in if style = ''dashed'' then
           metrics @ [(''dash_length'', 3 * font_size / 12), (''gap_length'', 2 * font_size / 12)]
         else if style = ''dotted'' then
           metrics @ [(''dot_diameter'', font_size / 12), (''gap_length'', 2 * font_size / 12)]
         else if style = ''wavy'' then
           metrics @ [(''wave_amplitude'', font_size * 0.05), (''wave_length'', font_size * 0.4)]
         else metrics)"

definition underlined_span :: span where
  "underlined_span = empty_span\<lparr> flags := Some 4, underline_style := Some ''solid'' \<rparr>"

definition size12_span :: span where
  "size12_span = empty_span\<lparr> size := Some 12 \<rparr>"

definition no_styles :: style_dict where
  "no_styles = Map.empty"

definition underline_styles :: style_dict where
  "underline_styles = [''text-decoration'' \<mapsto> SStr ''underline dotted'']"

definition dashed_styles :: style_dict where
  "dashed_styles = [''text-decoration-style'' \<mapsto> SStr ''dashed'']"

section \<open>font\_size\_handling.py and letter\_spacing\_handling.py\<close>

text \<open>
  Both normalizers run \<open>re.match(r'(-?\d*\.?\d+)\s*(pt|px|em|rem|%)?', s)\<close>. The match is
  anchored at the start of the string only. Group 1 is found as the backtracking matcher
  finds it: an optional minus sign, the longest run of digits, then a dot followed by the
  longest non-empty run of digits; when no digit follows a dot (or there is no dot), the
  matcher gives back the last digit of the first run to \<open>\d+\<close>, so group 1 is the sign
  and the first run, which must then be non-empty. The result is group 1 and the text
  after it.
\<close>

definition match_group1 :: "string \<Rightarrow> (string \<times> string) option" where
  "match_group1 s =
     (let sgn = (if starts_with ''-'' s then ''-'' else '''');
          s1 = drop (length sgn) s;
          d1 = takeWhile is_digit s1;
          r1 = dropWhile is_digit s1;
          d2 = takeWhile is_digit (drop 1 r1)
      in if starts_with ''.'' r1 \<and> d2 \<noteq> [] then
           Some (sgn @ d1 @ ''.'' @ d2, dropWhile is_digit (drop 1 r1))
         else if d1 \<noteq> [] then Some (sgn @ d1, r1)
         else None)"

text \<open>
  \<open>\s*(pt|px|em|rem|%)?\<close> after group 1: the whitespace is skipped and the first
  alternative that is a prefix of the rest is group 2; no unit starts with whitespace, so
  giving whitespace back never helps.
\<close>

definition match_unit :: "string \<Rightarrow> string option" where
  "match_unit rest =
     List.find (\<lambda>u. starts_with u (dropWhile is_space rest)) [''pt'', ''px'', ''em'', ''rem'', ''%'']"

definition re_match :: "string \<Rightarrow> (string \<times> string option) option" where
  "re_match s =
     (case match_group1 s of
        None \<Rightarrow> None
      | Some (g1, rest) \<Rightarrow> Some (g1, match_unit rest))"

text \<open>
  \<open>float(s)\<close> on a plain decimal literal (optional minus sign, digits, optional dot and
  digits, at least one digit), as an exact real; \<open>None\<close> stands for the \<open>ValueError\<close> of
  any other string. Python's \<open>float\<close> accepts further forms (exponents, \<open>inf\<close>, a plus
  sign, surrounding whitespace), none of which group 1 can hold.
\<close>

definition digit_val :: "char \<Rightarrow> nat" where
  "digit_val c = of_char c - 48"

definition digits_val :: "string \<Rightarrow> nat" where
  "digits_val ds = foldl (\<lambda>n c. 10 * n + digit_val c) 0 ds"

definition py_float :: "string \<Rightarrow> real option" where
  "py_float s =
     (let neg = starts_with ''-'' s;
          body = (if neg then drop 1 s else s);
          ip = takeWhile is_digit body;
          r = dropWhile is_digit body;
          fp = drop 1 r;
          sign = (if neg then - 1 else 1)
      in if r = [] \<and> ip \<noteq> [] then Some (sign * real (digits_val ip))
         else if starts_with ''.'' r \<and> list_all is_digit fp \<and> (ip \<noteq> [] \<or> fp \<noteq> []) then
           Some (sign * (real (digits_val ip) + real (digits_val fp) / 10 ^ length fp))
         else None)"

definition unit_conversions :: "(string \<times> real) list" where
  "unit_conversions =
     [(''pt'', 1.0), (''px'', 0.75), (''em'', 12.0), (''rem'', 12.0), (''%'', 0.12)]"

text \<open>
  The part the two normalizers share after a successful match: \<open>float(match.group(1))\<close>,
  \<open>match.group(2) or 'pt'\<close> and the look-up \<open>unit_conversions[unit]\<close>, each with the
  exception it can raise.
\<close>

definition convert_match :: "string \<times> string option \<Rightarrow> py_error + real" where
  "convert_match m =
     (case py_float (fst m) of
        None \<Rightarrow> Inl ValueError
      | Some v \<Rightarrow>
          (let unit = (case snd m of None \<Rightarrow> ''pt'' | Some u \<Rightarrow> if u = [] then ''pt'' else u)
           in case map_of unit_conversions unit of
                None \<Rightarrow> Inl KeyError
              | Some ratio \<Rightarrow> Inr (v * ratio)))"

definition normalize_font_size :: "sval \<Rightarrow> py_error + real" where
  "normalize_font_size sz =
     (case sz of
        SNum n \<Rightarrow> Inr n
      | SStr s \<Rightarrow>
          (case re_match s of
             None \<Rightarrow> Inr 12.0
           | Some m \<Rightarrow> convert_match m))"


text \<open>
  \<open>bbox.height *= scale_factor\<close> reads the attribute \<open>height\<close> and assigns the product to
  it. A tuple has no such attribute and a \<open>fitz.Rect\<close> does not let it be assigned: both
  raise \<open>AttributeError\<close>.
\<close>

definition scale_height :: "box \<Rightarrow> real \<Rightarrow> py_error + box" where
  "scale_height b scale_factor =
     (case b of
        TupleBox a0 b0 a1 b1 \<Rightarrow> Inl AttributeError
      | RectBox a0 b0 a1 b1 \<Rightarrow> Inl AttributeError
      | ObjectBox ob \<Rightarrow> Inr (ObjectBox (ob\<lparr> height := height ob * scale_factor \<rparr>)))"

text \<open>
  \<open>reinsert_font_size\<close> updates the span dictionary in place. The result is the dictionary
  as the call leaves it, and the exception the call raises, if any. The size is stored
  first, and \<open>old_size\<close> is read from the span after that.
\<close>

definition reinsert_font_size :: "span \<Rightarrow> style_dict \<Rightarrow> span \<times> py_error option" where
  "reinsert_font_size sp style_dict =
     (case style_dict ''font-size'' of
        None \<Rightarrow> (sp, None)
      | Some v \<Rightarrow>
          (case normalize_font_size v of
             Inl e \<Rightarrow> (sp, Some e)
           | Inr sz \<Rightarrow>
               (let s1 = sp\<lparr> size := Some sz \<rparr> in
                case (span_text s1, bbox s1) of
                  (Some t, Some bb) \<Rightarrow>
                    (let old_size = get_or (size s1) 12.0
                     in if old_size = 0 then (s1, Some ZeroDivisionError)
                        else
                          (let scale_factor = sz / old_size
                           in case scale_height bb scale_factor of
                                Inl e \<Rightarrow> (s1, Some e)
                              | Inr bb' \<Rightarrow>
                                  (let s2 = s1\<lparr> bbox := Some bb' \<rparr>;
                                       s3 = (case baseline s2 of
                                               None \<Rightarrow> s2
                                             | Some b \<Rightarrow> s2\<lparr> baseline := Some (b * scale_factor) \<rparr>)
                                   in (s3\<lparr> original_size := Some old_size \<rparr>, None))))
                | _ \<Rightarrow> (s1, None))))"

text \<open>
  A span as PyMuPDF delivers it, with a tuple for its box, and a span whose box is an
  object with assignable attributes.
\<close>

definition tuple_span :: span where
  "tuple_span = empty_span\<lparr> size := Some 10, span_text := Some ''abc'', baseline := Some 8,
     bbox := Some (TupleBox 0 0 30 10) \<rparr>"

definition text_span :: span where
  "text_span = empty_span\<lparr> size := Some 10, span_text := Some ''abc'', baseline := Some 8,
     bbox := Some (ObjectBox \<lparr> x0 = 0, y0 = 0, x1 = 30, y1 = 10, width = 30, height = 10 \<rparr>) \<rparr>"

definition size_styles :: style_dict where
  "size_styles = [''font-size'' \<mapsto> SStr ''16px'']"



section \<open>Blocks and lines\<close>

text \<open>
  A block dictionary of the document model, with the keys the block handlers read, and
  the names of the other keys it holds: a dictionary is empty, and so false as a
  condition, only when it has no key at all. The value of \<open>align\<close> is an integer code (as
  \<open>extract_block_properties\<close> reads it) or a string (as \<open>reinsert_text_align\<close> writes it).
\<close>

datatype align_val = AInt int | AStr string

record line =
  l_text :: "string option"
  l_bbox :: "bbox option"

record block =
  b_text :: "string option"
  b_lines :: "line list option"
  b_align :: "align_val option"
  b_line_height :: "real option"
  b_preserve_whitespace :: "bool option"
  b_other_keys :: "string list"

definition empty_block :: block where
  "empty_block = \<lparr> b_text = None, b_lines = None, b_align = None, b_line_height = None,
     b_preserve_whitespace = None, b_other_keys = [] \<rparr>"

text \<open>\<open>str(n)\<close> for an integer, as an f-string prints it.\<close>

function show_nat :: "nat \<Rightarrow> string" where
  "show_nat n =
     (if n < 10 then [char_of (48 + n)] else show_nat (n div 10) @ [char_of (48 + n mod 10)])"
  by pat_completeness auto
termination
  by (relation "measure id") auto

definition show_int :: "int \<Rightarrow> string" where
  "show_int i = (if i < 0 then ''-'' @ show_nat (nat (- i)) else show_nat (nat i))"

definition py_str :: "align_val \<Rightarrow> string" where
  "py_str v = (case v of AInt i \<Rightarrow> show_int i | AStr s \<Rightarrow> s)"

text \<open>\<open>max(xs)\<close> and \<open>min(xs)\<close>; the code calls them on non-empty lists only.\<close>

definition py_max :: "real list \<Rightarrow> real" where
  "py_max xs = foldl max (hd xs) (tl xs)"

definition py_min :: "real list \<Rightarrow> real" where
  "py_min xs = foldl min (hd xs) (tl xs)"

section \<open>text\_alignment\_handling.py\<close>

definition extract_text_align :: "block arg \<Rightarrow> string" where
  "extract_text_align a =
     (case a of
        Other \<Rightarrow> ''''
      | Dict b \<Rightarrow>
          (case b_align b of
             Some al \<Rightarrow> ''text-align: '' @ py_str al @ '';''
           | None \<Rightarrow>
               (let lines = get_or (b_lines b) [];
                    boxes = List.map_filter l_bbox lines;
                    left_edges = map x0 boxes;
                    right_edges = map x1 boxes
                in if lines \<noteq> [] \<and> left_edges \<noteq> [] \<and> right_edges \<noteq> [] then
                     (let left_variance = py_max left_edges - py_min left_edges;
                          right_variance = py_max right_edges - py_min right_edges
                      in if left_variance < 1 \<and> right_variance < 1 then ''text-align: justify;''
                         else if left_variance < 1 then ''text-align: left;''
                         else if right_variance < 1 then ''text-align: right;''
                         else
                           (let centers = map (\<lambda>(l, r). (l + r) / 2) (zip left_edges right_edges);
                                center_variance = py_max centers - py_min centers
                            in if center_variance < 1 then ''text-align: center;''
                               else ''text-align: left;''))
                   else ''text-align: left;'')))"

text \<open>A line whose box has the given left and right edge.\<close>

definition line_at :: "real \<Rightarrow> real \<Rightarrow> line" where
  "line_at l r =
     \<lparr> l_text = None,
       l_bbox = Some \<lparr> x0 = l, y0 = 0, x1 = r, y1 = 12, width = r - l, height = 12 \<rparr> \<rparr>"

definition left_block :: block where
  "left_block = empty_block\<lparr> b_lines := Some [line_at 10 100, line_at 10 150, line_at 10 120] \<rparr>"

definition shifted_block :: block where
  "shifted_block =
     empty_block\<lparr> b_lines := Some [line_at 10 100, line_at 40 130, line_at 25 115] \<rparr>"

definition centered_block :: block where
  "centered_block =
     empty_block\<lparr> b_lines := Some [line_at 10 100, line_at 40 70, line_at 25 85] \<rparr>"

section \<open>ocr\_execution.py: block construction\<close>

text \<open>
  \<open>pytesseract.image_to_data\<close> returns a dictionary of parallel lists of one length; entry
  \<open>i\<close> of each list describes word \<open>i\<close>. The model zips them into one list of word
  records. \<open>conf\<close> is the value after \<open>float(...)\<close>.
\<close>

record ocr_word =
  w_text :: string
  w_conf :: real
  w_block_num :: int
  w_left :: real
  w_top :: real
  w_width :: real
  w_height :: real

text \<open>The dictionary literal the loop builds: exactly these four keys.\<close>

record ocr_block =
  ob_number :: int
  ob_bbox :: bbox
  ob_text :: string
  ob_lines :: "line list"

text \<open>\<open>s.strip()\<close>.\<close>

definition py_strip :: "string \<Rightarrow> string" where
  "py_strip s = rev (dropWhile is_space (rev (dropWhile is_space s)))"

text \<open>
  The loop of \<open>_convert_to_blocks\<close>, with its state \<open>blocks\<close> and \<open>current_block\<close>.
  \<open>fitz.Rect(x0, y0, x1, y1)\<close> and the union \<open>|\<close> of two rectangles belong to PyMuPDF and
  are parameters \<open>Rect\<close> and \<open>rect_or\<close>.
\<close>

fun convert_loop ::
  "(real \<Rightarrow> real \<Rightarrow> real \<Rightarrow> real \<Rightarrow> bbox) \<Rightarrow> (bbox \<Rightarrow> bbox \<Rightarrow> bbox) \<Rightarrow>
   ocr_word list \<Rightarrow> ocr_block list \<Rightarrow> ocr_block option \<Rightarrow> ocr_block list" where
  "convert_loop Rect rect_or [] blocks current_block =
     (case current_block of None \<Rightarrow> blocks | Some c \<Rightarrow> blocks @ [c])"
| "convert_loop Rect rect_or (w # ws) blocks current_block =
     (let txt = py_strip (w_text w) in
      if txt = [] then convert_loop Rect rect_or ws blocks current_block
      else if w_conf w < 30 then convert_loop Rect rect_or ws blocks current_block
      else
        (let block_num = w_block_num w;
             box = Rect (w_left w) (w_top w) (w_left w + w_width w) (w_top w + w_height w)
         in case current_block of
              None \<Rightarrow>
                convert_loop Rect rect_or ws blocks
                  (Some \<lparr> ob_number = block_num, ob_bbox = box, ob_text = txt, ob_lines = [] \<rparr>)
            | Some c \<Rightarrow>
                if ob_number c \<noteq> block_num then
                  convert_loop Rect rect_or ws (blocks @ [c])
                    (Some \<lparr> ob_number = block_num, ob_bbox = box, ob_text = txt, ob_lines = [] \<rparr>)
                else
                  convert_loop Rect rect_or ws blocks
                    (Some (c\<lparr> ob_text := ob_text c @ '' '' @ txt,
                              ob_bbox := rect_or (ob_bbox c) box \<rparr>))))"

definition convert_to_blocks ::
  "(real \<Rightarrow> real \<Rightarrow> real \<Rightarrow> real \<Rightarrow> bbox) \<Rightarrow> (bbox \<Rightarrow> bbox \<Rightarrow> bbox) \<Rightarrow>
   ocr_word list \<Rightarrow> ocr_block list" where
  "convert_to_blocks Rect rect_or ocr_data = convert_loop Rect rect_or ocr_data [] None"

text \<open>
  To state what reaches the blocks: the words that are forwarded, and the texts of a list
  of blocks joined by single spaces (each block's text is itself the space-joined list of
  its words).
\<close>

definition forwarded :: "ocr_word \<Rightarrow> bool" where
  "forwarded w = (py_strip (w_text w) \<noteq> [] \<and> 30 \<le> w_conf w)"

fun join_sp :: "string list \<Rightarrow> string" where
  "join_sp [] = []"
| "join_sp [x] = x"
| "join_sp (x # y # ys) = x @ '' '' @ join_sp (y # ys)"

text \<open>Rectangles for the examples: corner coordinates, and the smallest enclosing box.\<close>

definition corner_rect :: "real \<Rightarrow> real \<Rightarrow> real \<Rightarrow> real \<Rightarrow> bbox" where
  "corner_rect a b c d = \<lparr> x0 = a, y0 = b, x1 = c, y1 = d, width = c - a, height = d - b \<rparr>"

definition enclosing_rect :: "bbox \<Rightarrow> bbox \<Rightarrow> bbox" where
  "enclosing_rect p q =
     corner_rect (min (x0 p) (x0 q)) (min (y0 p) (y0 q)) (max (x1 p) (x1 q)) (max (y1 p) (y1 q))"

definition word_at :: "string \<Rightarrow> real \<Rightarrow> int \<Rightarrow> real \<Rightarrow> ocr_word" where
  "word_at t c n x =
     \<lparr> w_text = t, w_conf = c, w_block_num = n, w_left = x, w_top = 0, w_width = 40,
       w_height = 10 \<rparr>"

definition three_words :: "ocr_word list" where
  "three_words = [word_at ''alpha'' 29 1 0, word_at ''beta'' 30 1 50, word_at ''gamma'' 100 1 100]"

section \<open>post\_ocr\_cleanup.py: merging similar blocks\<close>

text \<open>
  \<open>difflib.SequenceMatcher(None, a, b).ratio()\<close> is standard library code, modelled after
  the library. Its result is \<open>2.0 * M / T\<close>, where \<open>T\<close> is the sum of the two lengths and
  \<open>M\<close> the number of matched elements: the longest matching block is found, then the
  pieces to its left and the pieces to its right are matched in the same way.

  No element is junk (\<open>isjunk\<close> is \<open>None\<close>), but \<open>autojunk\<close> is on: when the second
  sequence has 200 elements or more, an element that occurs in it more than
  \<open>len(b) // 100 + 1\<close> times is popular and is left out of the index \<open>b2j\<close>.
  \<open>find_longest_match\<close> first finds the longest block \<open>a[i:i+k] == b[j:j+k]\<close> without a
  popular element that starts earliest in \<open>a\<close> and, among those, earliest in \<open>b\<close> (the
  empty block at the start of both when there is none), then extends it to the left and
  then to the right as long as the elements are equal, popular or not. The set of popular
  elements is computed once, from the whole second sequence.
\<close>

definition is_popular :: "'a list \<Rightarrow> 'a \<Rightarrow> bool" where
  "is_popular b elt = (200 \<le> length b \<and> length b div 100 + 1 < count_list b elt)"

fun common_prefix :: "'a list \<Rightarrow> 'a list \<Rightarrow> nat" where
  "common_prefix (x # xs) (y # ys) = (if x = y then Suc (common_prefix xs ys) else 0)"
| "common_prefix xs ys = 0"

text \<open>The length of the longest common prefix that has no popular element.\<close>

fun common_run :: "('a \<Rightarrow> bool) \<Rightarrow> 'a list \<Rightarrow> 'a list \<Rightarrow> nat" where
  "common_run popular (x # xs) (y # ys) =
     (if x = y \<and> \<not> popular y then Suc (common_run popular xs ys) else 0)"
| "common_run popular xs ys = 0"

fun scan_b :: "('a \<Rightarrow> bool) \<Rightarrow> 'a list \<Rightarrow> 'a list \<Rightarrow> nat \<Rightarrow> nat \<times> nat \<Rightarrow> nat \<times> nat" where
  "scan_b popular as [] j best = best"
| "scan_b popular as (b # bs) j best =
     scan_b popular as bs (Suc j)
       (if common_run popular as (b # bs) > snd best
        then (j, common_run popular as (b # bs)) else best)"

fun scan_a ::
  "('a \<Rightarrow> bool) \<Rightarrow> 'a list \<Rightarrow> 'a list \<Rightarrow> nat \<Rightarrow> nat \<times> nat \<times> nat \<Rightarrow> nat \<times> nat \<times> nat" where
  "scan_a popular [] b i best = best"
| "scan_a popular (a # as) b i best =
     (let (j, k) = scan_b popular (a # as) b 0 (0, 0)
      in scan_a popular as b (Suc i) (if k > snd (snd best) then (i, j, k) else best))"

definition find_longest_match :: "('a \<Rightarrow> bool) \<Rightarrow> 'a list \<Rightarrow> 'a list \<Rightarrow> nat \<times> nat \<times> nat" where
  "find_longest_match popular a b =
     (case scan_a popular a b 0 (0, 0, 0) of
        (besti, bestj, bestsize) \<Rightarrow>
          (let l = common_prefix (rev (take besti a)) (rev (take bestj b));
               r = common_prefix (drop (besti + bestsize) a) (drop (bestj + bestsize) b)
           in (besti - l, bestj - l, l + bestsize + r)))"

text \<open>The block found lies inside the first sequence; the recursion below rests on it.\<close>

lemma common_prefix_le: "common_prefix xs ys \<le> length xs"
  by (induction xs ys rule: common_prefix.induct) auto

lemma common_run_le: "common_run popular xs ys \<le> length xs"
  by (induction popular xs ys rule: common_run.induct) auto

lemma scan_b_bound:
  "snd best \<le> n \<Longrightarrow> length as \<le> n \<Longrightarrow> snd (scan_b popular as bs j best) \<le> n"
proof (induction bs arbitrary: j best)
  case Nil
  then show ?case by simp
next
  case (Cons b bs)
  have "common_run popular as (b # bs) \<le> n"
    using common_run_le [of popular as "b # bs"] Cons.prems(2) by simp
  with Cons show ?case by simp
qed

lemma scan_a_bound:
  "fst best + snd (snd best) \<le> i + length as \<Longrightarrow>
   fst (scan_a popular as b i best) + snd (snd (scan_a popular as b i best)) \<le> i + length as"
proof (induction as arbitrary: i best)
  case Nil
  then show ?case by simp
next
  case (Cons a as)
  obtain j k where jk: "scan_b popular (a # as) b 0 (0, 0) = (j, k)"
    by (cases "scan_b popular (a # as) b 0 (0, 0)")
  have "k \<le> length (a # as)"
    using scan_b_bound [of "(0, 0)" "length (a # as)" "a # as" popular b 0] jk by simp
  then have "fst (if k > snd (snd best) then (i, j, k) else best)
           + snd (snd (if k > snd (snd best) then (i, j, k) else best)) \<le> Suc i + length as"
    using Cons.prems by simp
  from Cons.IH [OF this] jk show ?case by simp
qed

lemma find_longest_match_bound:
  assumes "find_longest_match popular a b = (i, j, k)"
  shows "i + k \<le> length a"
proof -
  obtain i0 j0 k0 where s: "scan_a popular a b 0 (0, 0, 0) = (i0, j0, k0)"
    by (cases "scan_a popular a b 0 (0, 0, 0)")
  define l where "l = common_prefix (rev (take i0 a)) (rev (take j0 b))"
  define r where "r = common_prefix (drop (i0 + k0) a) (drop (j0 + k0) b)"
  have b0: "i0 + k0 \<le> length a"
    using scan_a_bound [of "(0, 0, 0)" 0 a popular b] s by simp
  have "l \<le> length (rev (take i0 a))" unfolding l_def by (rule common_prefix_le)
  then have l: "l \<le> i0" by simp
  have "r \<le> length (drop (i0 + k0) a)" unfolding r_def by (rule common_prefix_le)
  then have r: "r \<le> length a - (i0 + k0)" by simp
  from assms s have "i = i0 - l" "k = l + k0 + r"
    by (simp_all add: find_longest_match_def Let_def l_def r_def)
  with b0 l r show ?thesis by simp
qed

function matches :: "('a \<Rightarrow> bool) \<Rightarrow> 'a list \<Rightarrow> 'a list \<Rightarrow> nat" where
  "matches popular a b =
     (case find_longest_match popular a b of
        (i, j, k) \<Rightarrow>
          if k = 0 then 0
          else k + (if 0 < i \<and> 0 < j then matches popular (take i a) (take j b) else 0)
                 + (if i + k < length a \<and> j + k < length b
                    then matches popular (drop (i + k) a) (drop (j + k) b) else 0))"
  by pat_completeness auto
termination
proof (relation "measure (\<lambda>(popular, a, b). length a)", goal_cases)
  case 1
  show ?case by simp
next
  case (2 popular a b i y j k)
  then have "find_longest_match popular a b = (i, j, k)" by simp
  from find_longest_match_bound [OF this] 2 show ?case by simp
next
  case (3 popular a b i y j k)
  then have "0 < k" and "i + k < length a" by simp_all
  then show ?case by simp
qed

text \<open>
  \<open>ratio()\<close>. The double \<open>2.0 * M / T\<close> is the correctly rounded quotient; the model has
  the exact quotient.
\<close>

definition sequence_matcher_ratio :: "string \<Rightarrow> string \<Rightarrow> real" where
  "sequence_matcher_ratio a b =
     (let n = length a + length b
      in if n = 0 then 1.0 else 2.0 * real (matches (is_popular b) a b) / real n)"

text \<open>
  \<open>PDFTextProperties.extract_block_properties\<close> of pdf\_metadata.py. A property value is a
  string; \<open>PPoints h\<close> stands for the formatted string \<open>f"{h}pt"\<close>. The properties it can
  set are \<open>text-align\<close>, \<open>line-height\<close> and \<open>white-space\<close>.
\<close>

datatype prop_val = PText string | PPoints real

definition align_map :: "(int \<times> string) list" where
  "align_map = [(0, ''left''), (1, ''center''), (2, ''right''), (3, ''justify'')]"

definition extract_block_properties :: "block arg \<Rightarrow> (string \<rightharpoonup> prop_val)" where
  "extract_block_properties a =
     (case a of
        Other \<Rightarrow> Map.empty
      | Dict b \<Rightarrow>
          (let p0 = Map.empty;
               p1 = (case b_align b of
                       None \<Rightarrow> p0
                     | Some al \<Rightarrow>
                         p0(''text-align'' \<mapsto> PText
                            (case al of
                               AInt i \<Rightarrow> get_or (map_of align_map i) ''left''
                             | AStr s \<Rightarrow> ''left'')));
               p2 = (case b_line_height b of
                       None \<Rightarrow> p1
                     | Some h \<Rightarrow> p1(''line-height'' \<mapsto> PPoints h));
               p3 = (case b_preserve_whitespace b of
                       None \<Rightarrow> p2
                     | Some w \<Rightarrow> p2(''white-space'' \<mapsto> PText (if w then ''pre'' else ''normal'')))
           in p3))"

text \<open>The comparison \<open>all(current_props.get(prop) == next_props.get(prop) for prop in [...])\<close>.\<close>

definition props_match :: "block \<Rightarrow> block \<Rightarrow> bool" where
  "props_match current_block blk =
     (let current_props = extract_block_properties (Dict current_block);
          next_props = extract_block_properties (Dict blk)
      in list_all (\<lambda>prop. current_props prop = next_props prop)
           [''font-family'', ''font-size'', ''text-align''])"

text \<open>
  The loop of \<open>merge_similar_blocks\<close> with its state \<open>merged_blocks\<close> and
  \<open>current_block\<close>. \<open>not current_block\<close> holds for \<open>None\<close> and for the dictionary without
  any key, \<open>empty_block\<close>. \<open>current_block["lines"].extend(block["lines"])\<close> raises
  \<open>KeyError\<close> when either block has no \<open>lines\<close>. The similarity function is the parameter
  \<open>ratio\<close>, which the code instantiates with \<open>difflib\<close>'s. Blocks are values: the model
  assumes the blocks of the list are distinct objects.
\<close>

fun merge_loop ::
  "(string \<Rightarrow> string \<Rightarrow> real) \<Rightarrow> real \<Rightarrow> block list \<Rightarrow> block list \<Rightarrow> block option \<Rightarrow>
   py_error + block list" where
  "merge_loop ratio threshold [] merged_blocks current_block =
     (case current_block of
        None \<Rightarrow> Inr merged_blocks
      | Some c \<Rightarrow> if c = empty_block then Inr merged_blocks else Inr (merged_blocks @ [c]))"
| "merge_loop ratio threshold (blk # rest) merged_blocks current_block =
     (case current_block of
        None \<Rightarrow> merge_loop ratio threshold rest merged_blocks (Some blk)
      | Some c \<Rightarrow>
          if c = empty_block then merge_loop ratio threshold rest merged_blocks (Some blk)
          else
            (case (props_match c blk, b_text c, b_text blk) of
               (True, Some tc, Some tb) \<Rightarrow>
                 if threshold \<le> ratio tc tb then
                   (case (b_lines c, b_lines blk) of
                      (Some lc, Some lb) \<Rightarrow>
                        merge_loop ratio threshold rest merged_blocks
                          (Some (c\<lparr> b_lines := Some (lc @ lb) \<rparr>))
                    | _ \<Rightarrow> Inl KeyError)
                 else merge_loop ratio threshold rest (merged_blocks @ [c]) (Some blk)
             | _ \<Rightarrow> merge_loop ratio threshold rest (merged_blocks @ [c]) (Some blk)))"

definition merge_similar_blocks ::
  "(string \<Rightarrow> string \<Rightarrow> real) \<Rightarrow> block list \<Rightarrow> real \<Rightarrow> py_error + block list" where
  "merge_similar_blocks ratio blocks similarity_threshold =
     merge_loop ratio similarity_threshold blocks [] None"



section \<open>ocr\_preprocessing.py: the adaptive threshold\<close>


definition exact_variance :: "nat \<Rightarrow> int \<Rightarrow> nat \<Rightarrow> nat \<Rightarrow> real" where
  "exact_variance weight_bg weight_fg sum_bg sum_fg =
     (let mean_bg = real sum_bg / real weight_bg;
          mean_fg = real sum_fg / real_of_int weight_fg
      in real weight_bg * real_of_int weight_fg * (mean_bg - mean_fg)\<^sup>2)"











text \<open>Spans and style maps for the examples.\<close>

definition subscript_span :: span where
  "subscript_span = empty_span\<lparr> flags := Some 3 \<rparr>"

definition italic_span :: span where
  "italic_span = empty_span\<lparr> flags := Some 1, size := Some 10 \<rparr>"

definition sub_styles :: style_dict where
  "sub_styles = [''vertical-align'' \<mapsto> SStr ''sub'']"

definition super_styles :: style_dict where
  "super_styles = [''vertical-align'' \<mapsto> SStr ''super'']"

section \<open>Results: vertical alignment\<close>

lemma reset_mask: "NOT (2 OR 3) = (- 4 :: int)"
  by simp

lemma and_not3_and1: "((f::int) AND - 4) AND 1 = 0"
  by (simp add: and_one_eq mod_2_eq_odd even_and_iff)

lemma and_not3_or2_and1: "(((f::int) AND - 4) OR 2) AND 1 = 0"
  by (simp add: and_one_eq mod_2_eq_odd even_and_iff even_or_iff)

lemma bits01_imp_bit1:
  assumes "(f::int) AND 3 = 3"
  shows "f AND 2 \<noteq> 0"
proof -
  have "f AND 2 = (f AND 3) AND 2" by (simp add: and.assoc)
  also have "\<dots> = 2" by (simp add: assms)
  finally show ?thesis by simp
qed

lemma extract_vertical_align_bits01:
  "get_or (flags sp) 0 AND 3 = 3 \<Longrightarrow>
   extract_vertical_align (Dict sp) = ''vertical-align: super;''"
  by (simp add: extract_vertical_align_def Let_def bits01_imp_bit1)

text \<open>
  C1. The claim: a span whose flags have bits 0 and 1 both set (value 3) is extracted as
  \<open>vertical-align: sub;\<close>. The code tests \<open>flags & 2\<close> first, so at flags 3 it answers
  \<open>vertical-align: super;\<close>; the same happens to the span that reinsertion of
  \<open>vertical-align: sub\<close> has just written.
\<close>

theorem extract_vertical_align_flags_3:
  "extract_vertical_align (Dict subscript_span) = ''vertical-align: super;'' \<and>
   flags (reinsert_vertical_align empty_span sub_styles) = Some 3 \<and>
   extract_vertical_align (Dict (reinsert_vertical_align empty_span sub_styles))
     = ''vertical-align: super;''"
  by (simp add: extract_vertical_align_def reinsert_vertical_align_def subscript_span_def
      empty_span_def sub_styles_def get_or_def Let_def)

text \<open>
  C9. Reinsertion of any \<open>vertical-align\<close> value other than \<open>sub\<close> leaves flag bit 0 (the
  italic bit) cleared: the mask \<open>~(2 | 3)\<close> clears bits 0 and 1, and only the \<open>sub\<close> branch
  sets bit 0 again.
\<close>

theorem reinsert_vertical_align_clears_bit0:
  assumes "style_dict ''vertical-align'' = Some v" and "v \<noteq> SStr ''sub''"
  shows "flags (reinsert_vertical_align sp style_dict) \<noteq> None \<and>
         get_or (flags (reinsert_vertical_align sp style_dict)) 0 AND 1 = 0"
  using assms
  by (simp add: reinsert_vertical_align_def Let_def get_or_def and_not3_and1 and_not3_or2_and1)

theorem reinsert_vertical_align_clears_bit0_witness:
  "super_styles ''vertical-align'' = Some (SStr ''super'') \<and> SStr ''super'' \<noteq> SStr ''sub'' \<and>
   get_or (flags italic_span) 0 AND 1 = 1 \<and>
   flags (reinsert_vertical_align italic_span super_styles) \<noteq> None \<and>
   get_or (flags (reinsert_vertical_align italic_span super_styles)) 0 AND 1 = 0"
proof -
  have h1: "super_styles ''vertical-align'' = Some (SStr ''super'')"
    by (simp add: super_styles_def)
  have h2: "SStr ''super'' \<noteq> SStr ''sub''" by simp
  have h3: "get_or (flags italic_span) 0 AND 1 = 1"
    by (simp add: italic_span_def empty_span_def get_or_def)
  from reinsert_vertical_align_clears_bit0 [of super_styles "SStr ''super''" italic_span] h1 h2 h3
  show ?thesis by simp
qed

section \<open>Results: the underline bit and the dashed underline geometry\<close>

lemma or4_and4: "((f::int) OR 4) AND 4 = 4"
  by (auto simp: bit_eq_iff bit_and_iff bit_or_iff)

lemma reinsert_underline_sets_bit2:
  assumes "style_dict ''text-decoration'' = Some (SStr d)" and "str_contains ''underline'' d"
  shows "\<exists>r. reinsert_underline sp style_dict = Inr r \<and> flags r \<noteq> None \<and>
             get_or (flags r) 0 AND 4 = 4"
  using assms
  by (simp add: reinsert_underline_def Let_def get_or_def or4_and4 split: option.split)

lemma reinsert_dashed_underline_sets_bit2:
  assumes "style_dict ''text-decoration-style'' = Some (SStr s)"
    and "s \<in> {''dashed'', ''dotted'', ''wavy''}"
  shows "flags (reinsert_dashed_underline sp style_dict) \<noteq> None \<and>
         get_or (flags (reinsert_dashed_underline sp style_dict)) 0 AND 4 = 4"
  using assms
  by (auto simp add: reinsert_dashed_underline_def Let_def get_or_def or4_and4
      split: option.split)

text \<open>
  C2, as the code has it. Both reinsertion handlers set flag bit 2 (value 4) whenever an
  underline style is present in the style map: a \<open>text-decoration\<close> string containing
  \<open>underline\<close>, or a \<open>text-decoration-style\<close> among dashed, dotted, wavy. When the key a
  handler looks at is absent from the style map, the handler returns the span as it was,
  bit 2 included: nothing is cleared.
\<close>

theorem reinsert_underline_bit2:
  "(style_dict ''text-decoration'' = Some (SStr d) \<and> str_contains ''underline'' d \<longrightarrow>
      (\<exists>r. reinsert_underline sp style_dict = Inr r \<and> flags r \<noteq> None \<and>
           get_or (flags r) 0 AND 4 = 4)) \<and>
   (style_dict ''text-decoration-style'' = Some (SStr s) \<and>
      s \<in> {''dashed'', ''dotted'', ''wavy''} \<longrightarrow>
      flags (reinsert_dashed_underline sp style_dict) \<noteq> None \<and>
      get_or (flags (reinsert_dashed_underline sp style_dict)) 0 AND 4 = 4) \<and>
   (style_dict ''text-decoration'' = None \<longrightarrow> reinsert_underline sp style_dict = Inr sp) \<and>
   (style_dict ''text-decoration-style'' = None \<longrightarrow>
      reinsert_dashed_underline sp style_dict = sp)"
proof (intro conjI impI)
  assume "style_dict ''text-decoration'' = Some (SStr d) \<and> str_contains ''underline'' d"
  then show "\<exists>r. reinsert_underline sp style_dict = Inr r \<and> flags r \<noteq> None \<and>
                 get_or (flags r) 0 AND 4 = 4"
    using reinsert_underline_sets_bit2 [of style_dict d sp] by simp
next
  assume h: "style_dict ''text-decoration-style'' = Some (SStr s) \<and>
             s \<in> {''dashed'', ''dotted'', ''wavy''}"
  then show "flags (reinsert_dashed_underline sp style_dict) \<noteq> None"
    using reinsert_dashed_underline_sets_bit2 [of style_dict s sp] by simp
  from h show "get_or (flags (reinsert_dashed_underline sp style_dict)) 0 AND 4 = 4"
    using reinsert_dashed_underline_sets_bit2 [of style_dict s sp] by simp
next
  assume "style_dict ''text-decoration'' = None"
  then show "reinsert_underline sp style_dict = Inr sp"
    by (simp add: reinsert_underline_def)
next
  assume "style_dict ''text-decoration-style'' = None"
  then show "reinsert_dashed_underline sp style_dict = sp"
    by (simp add: reinsert_dashed_underline_def)
qed

theorem reinsert_underline_bit2_witness:
  "underline_styles ''text-decoration'' = Some (SStr ''underline dotted'') \<and>
   str_contains ''underline'' ''underline dotted'' \<and>
   (\<exists>r. reinsert_underline size12_span underline_styles = Inr r \<and> flags r \<noteq> None \<and>
        get_or (flags r) 0 AND 4 = 4) \<and>
   underline_styles ''text-decoration-style'' = None \<and>
   reinsert_dashed_underline size12_span underline_styles = size12_span"
proof -
  have h1: "underline_styles ''text-decoration'' = Some (SStr ''underline dotted'')"
    by (simp add: underline_styles_def)
  have h2: "str_contains ''underline'' ''underline dotted''"
    by (simp add: starts_with_def)
  have h3: "underline_styles ''text-decoration-style'' = None"
    by (simp add: underline_styles_def)
  note T = reinsert_underline_bit2 [of underline_styles "''underline dotted''" size12_span "''''"]
  from T h1 h2
  have a: "\<exists>r. reinsert_underline size12_span underline_styles = Inr r \<and> flags r \<noteq> None \<and>
               get_or (flags r) 0 AND 4 = 4"
    by blast
  from T h3 have b: "reinsert_dashed_underline size12_span underline_styles = size12_span"
    by blast
  from h1 h2 h3 a b show ?thesis by blast
qed

text \<open>
  C2 as the claim words it fails where the decoration key is absent: an underlined span
  (flags 4) reinserted with an empty style map keeps bit 2 in both handlers.
\<close>

theorem reinsert_underline_bit2_counterexample:
  "no_styles ''text-decoration'' = None \<and> no_styles ''text-decoration-style'' = None \<and>
   reinsert_underline underlined_span no_styles = Inr underlined_span \<and>
   reinsert_dashed_underline underlined_span no_styles = underlined_span \<and>
   get_or (flags underlined_span) 0 AND 4 = 4"
  by (simp add: reinsert_underline_def reinsert_dashed_underline_def no_styles_def
      underlined_span_def empty_span_def get_or_def)

text \<open>
  The dash geometry that reinsertion writes is, at every font size, what
  \<open>calculate_dash_pattern\<close> computes.
\<close>

lemma dash_geometry_any_size:
  assumes "size sp = Some fs"
  shows "dash_pattern (reinsert_dashed_underline sp dashed_styles)
           = Some [the (map_of (calculate_dash_pattern fs ''dashed'') ''dash_length''),
                   the (map_of (calculate_dash_pattern fs ''dashed'') ''gap_length'')] \<and>
         underline_thickness (reinsert_dashed_underline sp dashed_styles)
           = map_of (calculate_dash_pattern fs ''dashed'') ''thickness'' \<and>
         underline_position (reinsert_dashed_underline sp dashed_styles)
           = map_of (calculate_dash_pattern fs ''dashed'') ''offset''"
  using assms
  by (simp add: reinsert_dashed_underline_def dashed_styles_def
      calculate_dash_pattern_def Let_def get_or_def)

text \<open>
  C6. For a span of size 12, reinserting \<open>text-decoration-style: dashed\<close> and extracting
  gives \<open>text-decoration-style: dashed;\<close>, and the geometry written to the span (dash
  length 3, gap length 2, thickness, position) is that of \<open>calculate_dash_pattern 12 dashed\<close>.
\<close>

theorem dashed_underline_round_trip:
  assumes "size sp = Some 12"
  shows "extract_dashed_underline (Dict (reinsert_dashed_underline sp dashed_styles))
           = ''text-decoration-style: dashed;'' \<and>
         dash_pattern (reinsert_dashed_underline sp dashed_styles) = Some [3, 2] \<and>
         map_of (calculate_dash_pattern 12 ''dashed'') ''dash_length'' = Some 3 \<and>
         map_of (calculate_dash_pattern 12 ''dashed'') ''gap_length'' = Some 2 \<and>
         underline_thickness (reinsert_dashed_underline sp dashed_styles)
           = map_of (calculate_dash_pattern 12 ''dashed'') ''thickness'' \<and>
         underline_position (reinsert_dashed_underline sp dashed_styles)
           = map_of (calculate_dash_pattern 12 ''dashed'') ''offset'' \<and>
         baseline_offset (reinsert_dashed_underline sp dashed_styles)
           = map_of (calculate_dash_pattern 12 ''dashed'') ''offset''"
  using assms
  by (simp add: extract_dashed_underline_def reinsert_dashed_underline_def dashed_styles_def
      calculate_dash_pattern_def Let_def get_or_def or4_and4)

theorem dashed_underline_round_trip_witness:
  "size size12_span = Some 12 \<and>
   extract_dashed_underline (Dict (reinsert_dashed_underline size12_span dashed_styles))
     = ''text-decoration-style: dashed;'' \<and>
   dash_pattern (reinsert_dashed_underline size12_span dashed_styles) = Some [3, 2] \<and>
   underline_thickness (reinsert_dashed_underline size12_span dashed_styles) = Some 0.5 \<and>
   underline_position (reinsert_dashed_underline size12_span dashed_styles) = Some (- 1.2)"
proof -
  have h: "size size12_span = Some 12"
    by (simp add: size12_span_def empty_span_def)
  have m: "map_of (calculate_dash_pattern 12 ''dashed'') ''thickness'' = Some 0.5"
          "map_of (calculate_dash_pattern 12 ''dashed'') ''offset'' = Some (- 1.2)"
    by (simp_all add: calculate_dash_pattern_def)
  from dashed_underline_round_trip [OF h] h m show ?thesis by simp
qed

section \<open>Results: the size and spacing normalizers\<close>

lemma not_digit_minus [simp]: "\<not> is_digit CHR ''-''" by (simp add: is_digit_def)
lemma not_digit_dot [simp]: "\<not> is_digit CHR ''.''" by (simp add: is_digit_def)
























lemma normalize_16px: "normalize_font_size (SStr ''16px'') = Inr 12"
  by (simp add: normalize_font_size_def re_match_def match_group1_def match_unit_def
      convert_match_def py_float_def unit_conversions_def starts_with_def is_digit_def
      is_space_def digits_val_def digit_val_def Let_def)

text \<open>
  With a box whose \<open>height\<close> can be assigned and a new size that is not zero, the size is
  stored, the scale factor is the new size divided by the size just stored, the box height
  and the baseline stay as they were, and \<open>original_size\<close> is the new size.
\<close>

lemma reinsert_font_size_assignable_box:
  assumes "span_text sp = Some t" and "bbox sp = Some (ObjectBox ob)"
    and "style_dict ''font-size'' = Some v" and "normalize_font_size v = Inr sz" and "sz \<noteq> 0"
  shows "reinsert_font_size sp style_dict =
           (sp\<lparr> size := Some sz, original_size := Some sz \<rparr>, None)"
proof -
  have "sp\<lparr> size := Some sz, bbox := Some (ObjectBox ob), original_size := Some sz \<rparr>
          = sp\<lparr> size := Some sz, original_size := Some sz \<rparr>"
    using assms(2) by simp
  moreover have "sp\<lparr> size := Some sz, bbox := Some (ObjectBox ob), baseline := Some b,
                     original_size := Some sz \<rparr>
          = sp\<lparr> size := Some sz, original_size := Some sz \<rparr>" if "baseline sp = Some b" for b
    using assms(2) that by simp
  ultimately show ?thesis
    using assms
    by (simp add: reinsert_font_size_def scale_height_def Let_def get_or_def split: option.split)
qed

text \<open>
  With a tuple or a \<open>fitz.Rect\<close> for the box, the call raises \<open>AttributeError\<close> when it
  scales the height: the size has been overwritten by then, and \<open>original_size\<close> is never
  stored.
\<close>

lemma reinsert_font_size_fixed_box:
  assumes "span_text sp = Some t"
    and "bbox sp = Some (TupleBox a0 b0 a1 b1) \<or> bbox sp = Some (RectBox a0 b0 a1 b1)"
    and "style_dict ''font-size'' = Some v" and "normalize_font_size v = Inr sz" and "sz \<noteq> 0"
  shows "reinsert_font_size sp style_dict = (sp\<lparr> size := Some sz \<rparr>, Some AttributeError)"
  using assms
  by (auto simp add: reinsert_font_size_def scale_height_def Let_def get_or_def)

lemma reinsert_font_size_zero:
  assumes "span_text sp = Some t" and "bbox sp = Some bb"
    and "style_dict ''font-size'' = Some v" and "normalize_font_size v = Inr 0"
  shows "reinsert_font_size sp style_dict = (sp\<lparr> size := Some 0 \<rparr>, Some ZeroDivisionError)"
  using assms
  by (simp add: reinsert_font_size_def Let_def get_or_def)

text \<open>
  C10. The claim: for every span with \<open>text\<close> and \<open>bbox\<close> and every new size that is not
  zero, reinsertion leaves the box height unchanged and records \<open>original_size\<close> equal to
  the new size. On a span as PyMuPDF delivers it (size 10, box the tuple (0, 0, 30, 10))
  and the style \<open>font-size: 16px\<close>, the code stores the size 12 and then raises
  \<open>AttributeError\<close> at \<open>bbox.height *= scale_factor\<close>: \<open>original_size\<close> is not recorded.
\<close>

theorem reinsert_font_size_tuple_box:
  "span_text tuple_span = Some ''abc'' \<and> bbox tuple_span = Some (TupleBox 0 0 30 10) \<and>
   size_styles ''font-size'' = Some (SStr ''16px'') \<and>
   normalize_font_size (SStr ''16px'') = Inr 12 \<and>
   reinsert_font_size tuple_span size_styles
     = (tuple_span\<lparr> size := Some 12 \<rparr>, Some AttributeError) \<and>
   original_size (fst (reinsert_font_size tuple_span size_styles)) = None \<and>
   size (fst (reinsert_font_size tuple_span size_styles)) = Some 12"
proof -
  have h1: "span_text tuple_span = Some ''abc''"
    and h2: "bbox tuple_span = Some (TupleBox 0 0 30 10)"
    and h3: "original_size tuple_span = None"
    by (simp_all add: tuple_span_def empty_span_def)
  have h5: "size_styles ''font-size'' = Some (SStr ''16px'')" by (simp add: size_styles_def)
  have r: "reinsert_font_size tuple_span size_styles
             = (tuple_span\<lparr> size := Some 12 \<rparr>, Some AttributeError)"
    using reinsert_font_size_fixed_box [of tuple_span "''abc''" 0 0 30 10 size_styles
        "SStr ''16px''" 12] h1 h2 h5 normalize_16px
    by simp
  from h1 h2 h3 h5 normalize_16px r show ?thesis by simp
qed

text \<open>The same call on a span whose box is an object with an assignable height.\<close>

lemma reinsert_font_size_object_box:
  "reinsert_font_size text_span size_styles
     = (text_span\<lparr> size := Some 12, original_size := Some 12 \<rparr>, None)"
proof -
  have h1: "span_text text_span = Some ''abc''"
    and h2: "bbox text_span =
      Some (ObjectBox \<lparr> x0 = 0, y0 = 0, x1 = 30, y1 = 10, width = 30, height = 10 \<rparr>)"
    by (simp_all add: text_span_def empty_span_def)
  have h5: "size_styles ''font-size'' = Some (SStr ''16px'')" by (simp add: size_styles_def)
  show ?thesis
    using reinsert_font_size_assignable_box [of text_span _ _ size_styles _ 12]
      h1 h2 h5 normalize_16px
    by simp
qed

section \<open>Results: alignment detection\<close>

text \<open>
  C5 as the claim words it fails in its second half: for left edges 10, 40, 25 and right
  edges 100, 130, 115 the line midpoints are 55, 85 and 70, they spread by 30, and the
  midpoint comparison fails; the code returns its default, \<open>left\<close>.
\<close>

theorem extract_text_align_counterexample:
  "b_align shifted_block = None \<and>
   extract_text_align (Dict shifted_block) = ''text-align: left;'' \<and>
   extract_text_align (Dict shifted_block) \<noteq> ''text-align: center;''"
proof -
  have "extract_text_align (Dict shifted_block) = ''text-align: left;''"
    by (simp add: extract_text_align_def shifted_block_def empty_block_def get_or_def
        line_at_def List.map_filter_simps py_max_def py_min_def Let_def)
  moreover have "b_align shifted_block = None"
    by (simp add: shifted_block_def empty_block_def)
  ultimately show ?thesis by simp
qed

text \<open>
  C5, as the code has it. With no explicit alignment key: left edges 10, 10, 10 and right
  edges 100, 150, 120 give \<open>left\<close> (the left edges agree within 1 pt, the right edges do
  not); left edges 10, 40, 25 and right edges 100, 130, 115 give the default \<open>left\<close>,
  since neither the edges nor the midpoints 55, 85, 70 agree within 1 pt; \<open>center\<close> is
  the answer when the edges differ and the midpoints agree, as for left edges 10, 40, 25
  and right edges 100, 70, 85 (midpoints 55, 55, 55).
\<close>

theorem extract_text_align_detected:
  "extract_text_align (Dict left_block) = ''text-align: left;'' \<and>
   extract_text_align (Dict shifted_block) = ''text-align: left;'' \<and>
   extract_text_align (Dict centered_block) = ''text-align: center;''"
proof (intro conjI)
  show "extract_text_align (Dict left_block) = ''text-align: left;''"
    by (simp add: extract_text_align_def left_block_def empty_block_def get_or_def
        line_at_def List.map_filter_simps py_max_def py_min_def Let_def)
  show "extract_text_align (Dict shifted_block) = ''text-align: left;''"
    by (simp add: extract_text_align_def shifted_block_def empty_block_def get_or_def
        line_at_def List.map_filter_simps py_max_def py_min_def Let_def)
  show "extract_text_align (Dict centered_block) = ''text-align: center;''"
    by (simp add: extract_text_align_def centered_block_def empty_block_def get_or_def
        line_at_def List.map_filter_simps py_max_def py_min_def Let_def)
qed

text \<open>
  The rule behind the last two answers, for any block without an alignment key: when the
  left edges of its line boxes spread by 1 pt or more and so do the right edges, the answer
  is \<open>center\<close> if the line midpoints agree within 1 pt and \<open>left\<close> otherwise.
\<close>

lemma extract_text_align_center_rule:
  assumes "b_align b = None" and "b_lines b = Some ls"
    and "left_edges = map x0 (List.map_filter l_bbox ls)"
    and "right_edges = map x1 (List.map_filter l_bbox ls)"
    and "left_edges \<noteq> []"
    and "1 \<le> py_max left_edges - py_min left_edges"
    and "1 \<le> py_max right_edges - py_min right_edges"
  shows "extract_text_align (Dict b) =
           (if py_max (map (\<lambda>(l, r). (l + r) / 2) (zip left_edges right_edges))
                 - py_min (map (\<lambda>(l, r). (l + r) / 2) (zip left_edges right_edges)) < 1
            then ''text-align: center;'' else ''text-align: left;'')"
proof -
  from assms(3,5) have ne: "ls \<noteq> []" by (auto simp: List.map_filter_simps)
  from assms(3,4,5) have re: "right_edges \<noteq> []" by simp
  have l: "\<not> py_max left_edges - py_min left_edges < 1" using assms(6) by simp
  have r: "\<not> py_max right_edges - py_min right_edges < 1" using assms(7) by simp
  show ?thesis
    using assms(1,2) ne re l r assms(5)
    unfolding assms(3,4)
    by (simp add: extract_text_align_def Let_def get_or_def)
qed

section \<open>Results: the confidence filter of block construction\<close>

lemma convert_loop_skip:
  "\<not> forwarded w \<Longrightarrow>
   convert_loop Rect rect_or (w # ws) blocks cur = convert_loop Rect rect_or ws blocks cur"
  by (auto simp: forwarded_def Let_def)

lemma convert_loop_filter:
  "convert_loop Rect rect_or ws blocks cur =
   convert_loop Rect rect_or (filter forwarded ws) blocks cur"
proof (induction ws arbitrary: blocks cur)
  case Nil
  show ?case by simp
next
  case (Cons w ws)
  show ?case
  proof (cases "forwarded w")
    case False
    then have "convert_loop Rect rect_or (w # ws) blocks cur = convert_loop Rect rect_or ws blocks cur"
      by (rule convert_loop_skip)
    also have "\<dots> = convert_loop Rect rect_or (filter forwarded ws) blocks cur"
      by (rule Cons.IH)
    finally show ?thesis using False by simp
  next
    case True
    then have t: "py_strip (w_text w) \<noteq> []" and c: "\<not> w_conf w < 30"
      by (simp_all add: forwarded_def)
    from True have f: "filter forwarded (w # ws) = w # filter forwarded ws" by simp
    show ?thesis
      unfolding f
      by (simp add: t c Let_def Cons.IH [symmetric] split: option.split)
  qed
qed

lemma join_sp_Cons: "zs \<noteq> [] \<Longrightarrow> join_sp (x # zs) = x @ '' '' @ join_sp zs"
  by (cases zs) simp_all

lemma join_sp_merge:
  "join_sp (xs @ (a @ '' '' @ b) # rest) = join_sp (xs @ a # b # rest)"
proof (induction xs)
  case Nil
  show ?case by (cases rest) simp_all
next
  case (Cons x xs)
  have "join_sp ((x # xs) @ (a @ '' '' @ b) # rest) = x @ '' '' @ join_sp (xs @ (a @ '' '' @ b) # rest)"
    using join_sp_Cons [of "xs @ (a @ '' '' @ b) # rest" x] by simp
  also have "\<dots> = x @ '' '' @ join_sp (xs @ a # b # rest)"
    by (simp only: Cons.IH)
  also have "\<dots> = join_sp ((x # xs) @ a # b # rest)"
    using join_sp_Cons [of "xs @ a # b # rest" x] by simp
  finally show ?case .
qed

lemma convert_loop_texts:
  "join_sp (map ob_text (convert_loop Rect rect_or ws blocks cur)) =
   join_sp (map ob_text (blocks @ (case cur of None \<Rightarrow> [] | Some c \<Rightarrow> [c])) @
            map (\<lambda>w. py_strip (w_text w)) (filter forwarded ws))"
proof (induction ws arbitrary: blocks cur)
  case Nil
  show ?case by (simp split: option.split)
next
  case (Cons w ws)
  show ?case
  proof (cases "forwarded w")
    case False
    then have "convert_loop Rect rect_or (w # ws) blocks cur = convert_loop Rect rect_or ws blocks cur"
      by (rule convert_loop_skip)
    with False show ?thesis by (simp only: Cons.IH filter.simps if_False)
  next
    case True
    then have t: "py_strip (w_text w) \<noteq> []" and c: "\<not> w_conf w < 30"
      by (simp_all add: forwarded_def)
    show ?thesis
    proof (cases cur)
      case None
      with True t c show ?thesis by (simp add: Let_def Cons.IH)
    next
      case (Some b)
      show ?thesis
      proof (cases "ob_number b \<noteq> w_block_num w")
        case d: True
        with Some True t c show ?thesis by (simp add: Let_def Cons.IH)
      next
        case d: False
        from d Some True t c show ?thesis
          using join_sp_merge [of "map ob_text blocks" "ob_text b" "py_strip (w_text w)"
              "map (\<lambda>w. py_strip (w_text w)) (filter forwarded ws)"]
          by (simp add: Let_def Cons.IH)
      qed
    qed
  qed
qed

text \<open>
  C3. Block construction forwards exactly the words whose stripped text is not empty and
  whose confidence is at least 30: the blocks built from a word list are those built from
  its forwarded words alone, and the block texts, read in order, are the forwarded words
  in order. For confidences 29, 30, 100 the one block built holds the second and the third
  word.
\<close>

theorem convert_to_blocks_confidence_filter:
  "convert_to_blocks Rect rect_or ws = convert_to_blocks Rect rect_or (filter forwarded ws) \<and>
   join_sp (map ob_text (convert_to_blocks Rect rect_or ws)) =
     join_sp (map (\<lambda>w. py_strip (w_text w)) (filter forwarded ws))"
proof
  show "convert_to_blocks Rect rect_or ws = convert_to_blocks Rect rect_or (filter forwarded ws)"
    unfolding convert_to_blocks_def by (rule convert_loop_filter)
  show "join_sp (map ob_text (convert_to_blocks Rect rect_or ws)) =
          join_sp (map (\<lambda>w. py_strip (w_text w)) (filter forwarded ws))"
    unfolding convert_to_blocks_def using convert_loop_texts [of Rect rect_or ws "[]" None]
    by simp
qed

lemma three_words_forwarded:
  "filter forwarded three_words = [word_at ''beta'' 30 1 50, word_at ''gamma'' 100 1 100]"
  by (simp add: three_words_def forwarded_def word_at_def py_strip_def is_space_def)

theorem convert_to_blocks_confidence_filter_witness:
  "map w_conf three_words = [29, 30, 100] \<and>
   map w_conf (filter forwarded three_words) = [30, 100] \<and>
   join_sp (map ob_text (convert_to_blocks corner_rect enclosing_rect three_words))
     = ''beta gamma'' \<and>
   convert_to_blocks corner_rect enclosing_rect three_words =
     [\<lparr> ob_number = 1, ob_bbox = corner_rect 50 0 140 10, ob_text = ''beta gamma'',
        ob_lines = [] \<rparr>]"
proof -
  note T = convert_to_blocks_confidence_filter [of corner_rect enclosing_rect three_words]
  have c: "map w_conf three_words = [29, 30, 100]"
    by (simp add: three_words_def word_at_def)
  have f: "map w_conf (filter forwarded three_words) = [30, 100]"
    by (simp add: three_words_forwarded word_at_def)
  have s: "join_sp (map (\<lambda>w. py_strip (w_text w)) (filter forwarded three_words)) = ''beta gamma''"
    by (simp add: three_words_forwarded word_at_def py_strip_def is_space_def)
  have b: "convert_to_blocks corner_rect enclosing_rect
             [word_at ''beta'' 30 1 50, word_at ''gamma'' 100 1 100] =
           [\<lparr> ob_number = 1, ob_bbox = corner_rect 50 0 140 10, ob_text = ''beta gamma'',
              ob_lines = [] \<rparr>]"
    by (simp add: convert_to_blocks_def word_at_def py_strip_def is_space_def Let_def
        enclosing_rect_def corner_rect_def)
  from T have "join_sp (map ob_text (convert_to_blocks corner_rect enclosing_rect three_words))
                 = ''beta gamma''"
    unfolding s by (rule conjunct2)
  moreover from T have "convert_to_blocks corner_rect enclosing_rect three_words =
     [\<lparr> ob_number = 1, ob_bbox = corner_rect 50 0 140 10, ob_text = ''beta gamma'',
        ob_lines = [] \<rparr>]"
    unfolding three_words_forwarded b by (rule conjunct1)
  ultimately show ?thesis using c f by simp
qed

section \<open>Results: merging similar blocks\<close>

lemma merge_loop_acc:
  "merge_loop ratio th bs (m1 @ m2) cur =
   (case merge_loop ratio th bs m2 cur of Inl e \<Rightarrow> Inl e | Inr r \<Rightarrow> Inr (m1 @ r))"
proof (induction bs arbitrary: m2 cur)
  case Nil
  show ?case by (simp split: option.split)
next
  case (Cons b bs)
  have IH2: "merge_loop ratio th bs (m1 @ m2 @ [c]) cur' =
     (case merge_loop ratio th bs (m2 @ [c]) cur' of Inl e \<Rightarrow> Inl e | Inr r \<Rightarrow> Inr (m1 @ r))"
    for c cur'
    using Cons.IH [of "m2 @ [c]" cur'] by simp
  show ?case
    by (simp add: Cons.IH IH2 split: option.split bool.split)
qed

lemma merge_loop_start:
  "merge_similar_blocks ratio (a # rest) th = merge_loop ratio th rest [] (Some a)"
  by (simp add: merge_similar_blocks_def)



lemma merge_single: "a \<noteq> empty_block \<Longrightarrow> merge_similar_blocks ratio [a] th = Inr [a]"
  by (simp add: merge_similar_blocks_def)

lemma merge_step:
  assumes na: "a \<noteq> empty_block"
  shows "merge_similar_blocks ratio (a # b # rest) th =
           (if props_match a b \<and>
               (\<exists>ta tb. b_text a = Some ta \<and> b_text b = Some tb \<and> th \<le> ratio ta tb)
            then (case b_lines a of
                    None \<Rightarrow> Inl KeyError
                  | Some la \<Rightarrow>
                      (case b_lines b of
                         None \<Rightarrow> Inl KeyError
                       | Some lb \<Rightarrow>
                           merge_similar_blocks ratio (a\<lparr> b_lines := Some (la @ lb) \<rparr> # rest) th))
            else (case merge_similar_blocks ratio (b # rest) th of
                    Inl e \<Rightarrow> Inl e
                  | Inr r \<Rightarrow> Inr (a # r)))"
proof -
  have acc: "merge_loop ratio th rest [a] (Some b) =
             (case merge_loop ratio th rest [] (Some b) of Inl e \<Rightarrow> Inl e | Inr r \<Rightarrow> Inr (a # r))"
    using merge_loop_acc [of ratio th rest "[a]" "[]" "Some b"] by (simp split: sum.split)
  show ?thesis
  proof (cases "b_text a")
    case None
    then show ?thesis
      unfolding merge_loop_start using na acc by (simp split: bool.split)
  next
    case ta: (Some ta)
    show ?thesis
    proof (cases "b_text b")
      case None
      then show ?thesis
        unfolding merge_loop_start using na acc ta by (simp split: bool.split)
    next
      case tb: (Some tb)
      show ?thesis
        unfolding merge_loop_start using na acc ta tb
        by (simp split: bool.split option.split)
    qed
  qed
qed

text \<open>
  Of the three keys compared, \<open>extract_block_properties\<close> can only ever set \<open>text-align\<close>:
  the two font keys are absent from both dictionaries and compare equal. The alignment
  entry is there when the block has the key \<open>align\<close>; the codes 0 to 3 give \<open>left\<close>,
  \<open>center\<close>, \<open>right\<close> and \<open>justify\<close>, any other value gives \<open>left\<close>.
\<close>

lemma block_properties_no_font:
  "extract_block_properties a ''font-family'' = None \<and>
   extract_block_properties a ''font-size'' = None"
  by (cases a) (simp_all add: extract_block_properties_def Let_def split: option.split)

lemma props_match_text_align:
  "props_match c b =
     (extract_block_properties (Dict c) ''text-align'' =
      extract_block_properties (Dict b) ''text-align'')"
  by (simp add: props_match_def Let_def block_properties_no_font)

lemma block_properties_text_align:
  "extract_block_properties (Dict a) ''text-align'' =
     (case b_align a of
        None \<Rightarrow> None
      | Some (AInt i) \<Rightarrow>
          Some (PText (if i = 1 then ''center'' else if i = 2 then ''right''
                       else if i = 3 then ''justify'' else ''left''))
      | Some (AStr s) \<Rightarrow> Some (PText ''left''))"
  by (simp add: extract_block_properties_def Let_def align_map_def get_or_def
      split: option.split align_val.split)

lemma props_match_lines:
  "props_match (a\<lparr> b_lines := ls \<rparr>) b = props_match a b"
  by (simp add: props_match_text_align block_properties_text_align)

text \<open>
  A run: the blocks that follow \<open>a\<close> are all compared with \<open>a\<close>, whose text and alignment
  do not change while their lines are appended to it.
\<close>

lemma merge_similar_blocks_run:
  assumes "b_text a = Some ta" and "b_lines a = Some la"
    and "\<forall>b\<in>set bs. props_match a b \<and> (\<exists>tb. b_text b = Some tb \<and> th \<le> ratio ta tb) \<and>
                     b_lines b \<noteq> None"
  shows "merge_similar_blocks ratio (a # bs) th =
           Inr [a\<lparr> b_lines := Some (la @ concat (map (\<lambda>b. the (b_lines b)) bs)) \<rparr>]"
  using assms
proof (induction bs arbitrary: a la)
  case Nil
  then have "a \<noteq> empty_block" by (auto simp: empty_block_def)
  moreover have "a\<lparr> b_lines := Some la \<rparr> = a" using Nil.prems(2) by simp
  ultimately show ?case by (simp add: merge_single)
next
  case (Cons b bs)
  from Cons.prems(1) have na: "a \<noteq> empty_block" by (auto simp: empty_block_def)
  from Cons.prems(3) obtain tb lb where b: "props_match a b" "b_text b = Some tb"
    "th \<le> ratio ta tb" "b_lines b = Some lb"
    by auto
  let ?a = "a\<lparr> b_lines := Some (la @ lb) \<rparr>"
  have step: "merge_similar_blocks ratio (a # b # bs) th = merge_similar_blocks ratio (?a # bs) th"
    using merge_step [OF na, of ratio b bs th] b Cons.prems(1,2) by simp
  have "merge_similar_blocks ratio (?a # bs) th =
          Inr [?a\<lparr> b_lines := Some ((la @ lb) @ concat (map (\<lambda>b. the (b_lines b)) bs)) \<rparr>]"
  proof (rule Cons.IH)
    show "b_text ?a = Some ta" using Cons.prems(1) by simp
    show "b_lines ?a = Some (la @ lb)" by simp
    show "\<forall>b\<in>set bs. props_match ?a b \<and> (\<exists>tb. b_text b = Some tb \<and> th \<le> ratio ta tb) \<and>
                     b_lines b \<noteq> None"
      using Cons.prems(3) by (simp add: props_match_lines)
  qed
  with step b(4) show ?case by simp
qed






text \<open>
  The popular elements at work: 200 times the letter \<open>a\<close> as second text makes \<open>a\<close>
  popular, no block free of popular elements exists, and the empty block at the start
  cannot be extended since the first text begins with \<open>b\<close>. The ratio is 0, although the
  texts share 200 letters.
\<close>

lemma common_run_popular:
  "\<forall>y\<in>set ys. popular y \<Longrightarrow> common_run popular xs ys = 0"
  by (cases xs; cases ys) simp_all

lemma scan_b_popular:
  "\<forall>y\<in>set bs. popular y \<Longrightarrow> scan_b popular as bs j (j0, 0) = (j0, 0)"
proof (induction bs arbitrary: j)
  case Nil
  show ?case by simp
next
  case (Cons b bs)
  from Cons.prems have "common_run popular as (b # bs) = 0" by (rule common_run_popular)
  with Cons show ?case by simp
qed

lemma scan_a_popular:
  "\<forall>y\<in>set b. popular y \<Longrightarrow> scan_a popular as b i (0, 0, 0) = (0, 0, 0)"
proof (induction as arbitrary: i)
  case Nil
  show ?case by simp
next
  case (Cons a as)
  from Cons.prems have "scan_b popular (a # as) b 0 (0, 0) = (0, 0)" by (rule scan_b_popular)
  with Cons show ?case by simp
qed

lemma matches_all_popular:
  assumes "\<forall>y\<in>set b. popular y" and "hd a \<noteq> hd b"
  shows "matches popular a b = 0"
proof -
  have "common_prefix a b = 0" using assms(2) by (cases a; cases b) simp_all
  then have "find_longest_match popular a b = (0, 0, 0)"
    using scan_a_popular [OF assms(1), of a 0] by (simp add: find_longest_match_def)
  then show ?thesis by (subst matches.simps) simp
qed

lemma count_list_replicate_same: "count_list (replicate n x) x = n"
  by (induction n) simp_all

lemma autojunk_example:
  "sequence_matcher_ratio (CHR ''b'' # replicate 200 CHR ''a'') (replicate 200 CHR ''a'') = 0"
proof -
  have "\<forall>y\<in>set (replicate 200 CHR ''a''). is_popular (replicate 200 CHR ''a'') y"
    by (simp add: is_popular_def count_list_replicate_same)
  then have "matches (is_popular (replicate 200 CHR ''a''))
               (CHR ''b'' # replicate 200 CHR ''a'') (replicate 200 CHR ''a'') = 0"
    by (rule matches_all_popular) (simp add: hd_replicate)
  then show ?thesis by (simp add: sequence_matcher_ratio_def)
qed






section \<open>Results: the adaptive threshold\<close>




















lemma exact_variance_two_peaks:
  assumes "0 < m1" and "0 < m2"
  shows "exact_variance m1 (int m2) (p1 * m1) (p2 * m2) =
           real m1 * real m2 * (real p1 - real p2)\<^sup>2"
  using assms by (simp add: exact_variance_def Let_def)





end
